theory Spec2Isabelle
  imports Complex_Main
begin

section \<open>JavaScript values\<close>

text \<open>
  The validator compares parameter values that may be numbers, \<open>null\<close>, \<open>undefined\<close>,
  booleans or strings. A JavaScript number is modelled by \<open>jsnum\<close>: a rational (the value
  of a finite double; a decimal literal of the source denotes its decimal value), the two
  infinities, or \<open>NaN\<close>.
\<close>

datatype jsnum = NaN | NegInf | Fin rat | PosInf

text \<open>
  A string carries, beside its text, the two numbers the JavaScript engine reads from it:
  the result of the engine's \<open>ToNumber\<close> and the result of the engine's \<open>parseFloat\<close>.
  Both conversions belong to the engine, not to this program, which only compares their
  results.
\<close>

datatype jsval =
    JUndefined
  | JNull
  | JBool bool
  | JNum jsnum
  | JStr string jsnum jsnum

abbreviation num :: "rat \<Rightarrow> jsval" where
  "num x \<equiv> JNum (Fin x)"

text \<open>The engine's abstract operation \<open>ToNumber\<close>: \<open>null\<close> becomes 0, \<open>undefined\<close> becomes NaN.\<close>

fun ToNumber :: "jsval \<Rightarrow> jsnum" where
  "ToNumber JUndefined = NaN"
| "ToNumber JNull = Fin 0"
| "ToNumber (JBool b) = (if b then Fin 1 else Fin 0)"
| "ToNumber (JNum n) = n"
| "ToNumber (JStr s n p) = n"

text \<open>
  \<open>parseFloat(v)\<close> parses the text of \<open>String(v)\<close>: a number reads back as itself,
  \<open>"null"\<close>, \<open>"undefined"\<close>, \<open>"true"\<close> and \<open>"false"\<close> give NaN.
\<close>

fun parseFloat :: "jsval \<Rightarrow> jsnum" where
  "parseFloat (JNum n) = n"
| "parseFloat (JStr s n p) = p"
| "parseFloat JUndefined = NaN"
| "parseFloat JNull = NaN"
| "parseFloat (JBool b) = NaN"

text \<open>The comparison \<open>a < b\<close> of two numbers; every comparison with NaN is false.\<close>

fun num_lt :: "jsnum \<Rightarrow> jsnum \<Rightarrow> bool" where
  "num_lt NaN b = False"
| "num_lt a NaN = False"
| "num_lt (Fin a) (Fin b) = (a < b)"
| "num_lt NegInf NegInf = False"
| "num_lt NegInf b = True"
| "num_lt a NegInf = False"
| "num_lt PosInf b = False"
| "num_lt a PosInf = True"

text \<open>\<open>a <= b\<close> is "not \<open>b < a\<close>, and neither is NaN".\<close>

definition num_le :: "jsnum \<Rightarrow> jsnum \<Rightarrow> bool" where
  "num_le a b = (a \<noteq> NaN \<and> b \<noteq> NaN \<and> \<not> num_lt b a)"

text \<open>Strict equality \<open>a === b\<close> of two numbers: NaN equals nothing.\<close>

definition num_eq :: "jsnum \<Rightarrow> jsnum \<Rightarrow> bool" where
  "num_eq a b = (a \<noteq> NaN \<and> a = b)"

fun num_abs :: "jsnum \<Rightarrow> jsnum" where
  "num_abs NaN = NaN"
| "num_abs NegInf = PosInf"
| "num_abs PosInf = PosInf"
| "num_abs (Fin a) = Fin \<bar>a\<bar>"

text \<open>
  The relational operators as the validator uses them: a parameter value on the left,
  a number on the right. The value is converted by \<open>ToNumber\<close> first.
\<close>

definition js_lt :: "jsval \<Rightarrow> rat \<Rightarrow> bool" where
  "js_lt v c = num_lt (ToNumber v) (Fin c)"

definition js_gt :: "jsval \<Rightarrow> rat \<Rightarrow> bool" where
  "js_gt v c = num_lt (Fin c) (ToNumber v)"

definition js_le :: "jsval \<Rightarrow> rat \<Rightarrow> bool" where
  "js_le v c = num_le (ToNumber v) (Fin c)"

definition js_ge :: "jsval \<Rightarrow> rat \<Rightarrow> bool" where
  "js_ge v c = num_le (Fin c) (ToNumber v)"

text \<open>\<open>Math.abs(v)\<close>.\<close>

definition Math_abs :: "jsval \<Rightarrow> jsval" where
  "Math_abs v = JNum (num_abs (ToNumber v))"

section \<open>Objects and property reads\<close>

text \<open>
  An object literal is a list of its own properties, in the order \<open>Object.entries\<close>
  lists them (keys are distinct, and none of the keys used here is an array index).
  Reading \<open>obj[key]\<close> finds an own property, or else a property that every object
  literal inherits from \<open>Object.prototype\<close>, or else \<open>undefined\<close>.
\<close>

type_synonym 'a object = "(string \<times> 'a) list"

definition Object_prototype_keys :: "string list" where
  "Object_prototype_keys =
    [''constructor'', ''hasOwnProperty'', ''isPrototypeOf'', ''propertyIsEnumerable'',
     ''toLocaleString'', ''toString'', ''valueOf'', ''__proto__'',
     ''__defineGetter__'', ''__defineSetter__'', ''__lookupGetter__'', ''__lookupSetter__'']"

datatype 'a property = Own 'a | Inherited | Absent

definition get_prop :: "'a object \<Rightarrow> string \<Rightarrow> 'a property" where
  "get_prop obj key =
    (case map_of obj key of
       Some v \<Rightarrow> Own v
     | None \<Rightarrow> if key \<in> set Object_prototype_keys then Inherited else Absent)"

text \<open>
  A read of a parameter of a step, \<open>step.params.key\<close>, for the keys the validator names
  (\<open>cycles\<close>, \<open>duration_s\<close>, ...): none of them is a key of \<open>Object.prototype\<close>, so the
  read is the own property or \<open>undefined\<close>.
\<close>

definition getp :: "jsval object \<Rightarrow> string \<Rightarrow> jsval" where
  "getp ps key = (case map_of ps key of Some v \<Rightarrow> v | None \<Rightarrow> JUndefined)"

section \<open>The technique catalog (techniques.js)\<close>

text \<open>
  A parameter specification and a technique definition, with the fields of the source.
  The free documentation texts (\<open>help\<close>, \<open>description\<close>, \<open>mlDescription\<close>) are left out:
  no function of the validator or of \<open>createDefaultStep\<close> reads them.
\<close>

datatype param_type = TNumber | TInteger | TBoolean | TString | TSelect

record param_spec =
  label :: string
  type_p :: param_type
  default_p :: jsval
  unit_p :: "string option"
  min_p :: "rat option"
  max_p :: "rat option"
  options :: "string list option"

record technique_def =
  tech_id :: string
  name :: string
  abbrev :: string
  category :: string
  tech_params :: "param_spec object"

text \<open>A numeric parameter with unit and bounds, as most entries of the catalog are.\<close>

definition number_param :: "string \<Rightarrow> param_type \<Rightarrow> jsval \<Rightarrow> string \<Rightarrow> rat \<Rightarrow> rat \<Rightarrow> param_spec" where
  "number_param l t d u lo hi =
    \<lparr>label = l, type_p = t, default_p = d, unit_p = Some u,
     min_p = Some lo, max_p = Some hi, options = None\<rparr>"

definition ocp :: technique_def where
  "ocp = \<lparr>tech_id = ''ocp'', name = ''Open Circuit Potential'', abbrev = ''OCP'',
    category = ''measurement'',
    tech_params =
     [(''duration_s'', number_param ''Duration'' TNumber (num 60) ''s'' 1 86400),
      (''stability_mV_min'',
         number_param ''Stability criterion'' TNumber (num 1) ''mV/min'' 0.1 100),
      (''sample_rate_Hz'', number_param ''Sample rate'' TNumber (num 1) ''Hz'' 0.1 1000)]\<rparr>"

definition cv :: technique_def where
  "cv = \<lparr>tech_id = ''cv'', name = ''Cyclic Voltammetry'', abbrev = ''CV'',
    category = ''voltammetry'',
    tech_params =
     [(''vertex1_V'', number_param ''Lower vertex'' TNumber (num 0.05) ''V vs RHE'' (-3) 3),
      (''vertex2_V'', number_param ''Upper vertex'' TNumber (num 1.2) ''V vs RHE'' (-3) 3),
      (''scan_rate_mV_s'', number_param ''Scan rate'' TNumber (num 50) ''mV/s'' 0.1 10000),
      (''cycles'', number_param ''Cycles'' TInteger (num 3) [] 1 1000000),
      (''start_potential_V'',
         number_param ''Start potential'' TNumber JNull ''V vs RHE'' (-3) 3),
      (''ir_compensation'',
         \<lparr>label = ''iR compensation'', type_p = TBoolean, default_p = JBool False,
          unit_p = None, min_p = None, max_p = None, options = None\<rparr>)]\<rparr>"

definition lsv :: technique_def where
  "lsv = \<lparr>tech_id = ''lsv'', name = ''Linear Sweep Voltammetry'', abbrev = ''LSV'',
    category = ''voltammetry'',
    tech_params =
     [(''start_V'', number_param ''Start potential'' TNumber (num 1.0) ''V vs RHE'' (-3) 3),
      (''end_V'', number_param ''End potential'' TNumber (num 0.2) ''V vs RHE'' (-3) 3),
      (''scan_rate_mV_s'', number_param ''Scan rate'' TNumber (num 5) ''mV/s'' 0.1 10000),
      (''ir_compensation'',
         \<lparr>label = ''iR compensation'', type_p = TBoolean, default_p = JBool False,
          unit_p = None, min_p = None, max_p = None, options = None\<rparr>)]\<rparr>"

definition dpv :: technique_def where
  "dpv = \<lparr>tech_id = ''dpv'', name = ''Differential Pulse Voltammetry'', abbrev = ''DPV'',
    category = ''voltammetry'',
    tech_params =
     [(''start_V'', number_param ''Start potential'' TNumber (num 0.0) ''V'' (-3) 3),
      (''end_V'', number_param ''End potential'' TNumber (num 1.0) ''V'' (-3) 3),
      (''pulse_height_mV'', number_param ''Pulse height'' TNumber (num 50) ''mV'' 1 250),
      (''pulse_width_ms'', number_param ''Pulse width'' TNumber (num 50) ''ms'' 1 1000),
      (''step_height_mV'', number_param ''Step height'' TNumber (num 5) ''mV'' 0.1 50),
      (''sample_period_ms'', number_param ''Sample period'' TNumber (num 20) ''ms'' 1 500)]\<rparr>"

definition swv :: technique_def where
  "swv = \<lparr>tech_id = ''swv'', name = ''Square Wave Voltammetry'', abbrev = ''SWV'',
    category = ''voltammetry'',
    tech_params =
     [(''start_V'', number_param ''Start potential'' TNumber (num 0.0) ''V'' (-3) 3),
      (''end_V'', number_param ''End potential'' TNumber (num 1.0) ''V'' (-3) 3),
      (''frequency_Hz'', number_param ''Frequency'' TNumber (num 25) ''Hz'' 1 500),
      (''amplitude_mV'', number_param ''Amplitude'' TNumber (num 25) ''mV'' 1 250),
      (''step_height_mV'', number_param ''Step height'' TNumber (num 5) ''mV'' 0.1 50)]\<rparr>"

definition stripping :: technique_def where
  "stripping = \<lparr>tech_id = ''stripping'', name = ''Stripping Voltammetry'',
    abbrev = ''ASV/CSV'', category = ''voltammetry'',
    tech_params =
     [(''deposition_V'',
         number_param ''Deposition potential'' TNumber (num (-0.8)) ''V'' (-3) 3),
      (''deposition_time_s'', number_param ''Deposition time'' TNumber (num 120) ''s'' 1 3600),
      (''equilibration_s'', number_param ''Equilibration'' TNumber (num 10) ''s'' 0 120),
      (''strip_start_V'', number_param ''Strip start'' TNumber (num (-0.8)) ''V'' (-3) 3),
      (''strip_end_V'', number_param ''Strip end'' TNumber (num 0.3) ''V'' (-3) 3),
      (''scan_rate_mV_s'', number_param ''Scan rate'' TNumber (num 50) ''mV/s'' 1 1000)]\<rparr>"

definition eis :: technique_def where
  "eis = \<lparr>tech_id = ''eis'', name = ''Electrochemical Impedance Spectroscopy'',
    abbrev = ''EIS'', category = ''impedance'',
    tech_params =
     [(''f_start_Hz'',
         number_param ''Start frequency'' TNumber (num 100000) ''Hz'' 0.000001 10000000),
      (''f_end_Hz'',
         number_param ''End frequency'' TNumber (num 0.1) ''Hz'' 0.000001 10000000),
      (''amplitude_mV'', number_param ''AC amplitude'' TNumber (num 10) ''mV'' 1 100),
      (''dc_potential_V'',
         \<lparr>label = ''DC potential'', type_p = TString, default_p = JStr ''OCP'' NaN NaN,
          unit_p = Some ''V or OCP'', min_p = None, max_p = None, options = None\<rparr>),
      (''points_per_decade'', number_param ''Points/decade'' TInteger (num 10) [] 1 50)]\<rparr>"

definition ca :: technique_def where
  "ca = \<lparr>tech_id = ''ca'', name = ''Chronoamperometry'', abbrev = ''CA'',
    category = ''chronomethod'',
    tech_params =
     [(''potential_V'',
         number_param ''Applied potential'' TNumber (num 1.5) ''V vs RHE'' (-3) 3),
      (''duration_s'', number_param ''Duration'' TNumber (num 3600) ''s'' 1 604800),
      (''sample_rate_Hz'', number_param ''Sample rate'' TNumber (num 1) ''Hz'' 0.001 1000)]\<rparr>"

definition cp :: technique_def where
  "cp = \<lparr>tech_id = ''cp'', name = ''Chronopotentiometry'', abbrev = ''CP'',
    category = ''chronomethod'',
    tech_params =
     [(''current_mA'', number_param ''Applied current'' TNumber (num 10) ''mA'' (-1000) 1000),
      (''duration_s'', number_param ''Duration'' TNumber (num 3600) ''s'' 1 604800),
      (''voltage_limits_V'',
         \<lparr>label = ''Voltage limits'', type_p = TString,
          default_p = JStr ''-0.5 to 2.0'' NaN (Fin (-0.5)),
          unit_p = Some ''V'', min_p = None, max_p = None, options = None\<rparr>)]\<rparr>"

definition gcd_t :: technique_def where
  "gcd_t = \<lparr>tech_id = ''gcd'', name = ''Galvanostatic Charge-Discharge'', abbrev = ''GCD'',
    category = ''chronomethod'',
    tech_params =
     [(''current_mA'', number_param ''Current'' TNumber (num 10) ''mA'' 0.001 1000),
      (''upper_V'', number_param ''Upper voltage'' TNumber (num 1.0) ''V'' (-3) 5),
      (''lower_V'', number_param ''Lower voltage'' TNumber (num 0.0) ''V'' (-3) 5),
      (''cycles'', number_param ''Cycles'' TInteger (num 5) [] 1 10000)]\<rparr>"

definition cc :: technique_def where
  "cc = \<lparr>tech_id = ''cc'', name = ''Coulometry / Charge Counting'', abbrev = ''CC'',
    category = ''chronomethod'',
    tech_params =
     [(''mode'',
         \<lparr>label = ''Control mode'', type_p = TSelect,
          default_p = JStr ''potentiostatic'' NaN NaN,
          unit_p = None, min_p = None, max_p = None,
          options = Some [''potentiostatic'', ''galvanostatic'']\<rparr>),
      (''setpoint'', number_param ''Setpoint'' TNumber (num 1.0) ''V or mA'' (-10) 10),
      (''duration_s'', number_param ''Duration'' TNumber (num 600) ''s'' 1 86400),
      (''cutoff_C'', number_param ''Charge cutoff'' TNumber JNull ''C'' 0 10000)]\<rparr>"

definition purge :: technique_def where
  "purge = \<lparr>tech_id = ''purge'', name = ''Gas Purge'', abbrev = ''Purge'',
    category = ''auxiliary'',
    tech_params =
     [(''gas'',
         \<lparr>label = ''Gas'', type_p = TSelect, default_p = JStr ''N2'' NaN NaN,
          unit_p = None, min_p = None, max_p = None,
          options = Some [''N2'', ''O2'', ''Ar'', ''H2'', ''CO2'', ''air'']\<rparr>),
      (''duration_min'', number_param ''Duration'' TNumber (num 20) ''min'' 1 120),
      (''flow_rate_mL_min'', number_param ''Flow rate'' TNumber (num 50) ''mL/min'' 1 500)]\<rparr>"

definition TECHNIQUES :: "technique_def object" where
  "TECHNIQUES =
    [(''ocp'', ocp), (''cv'', cv), (''lsv'', lsv), (''dpv'', dpv), (''swv'', swv),
     (''stripping'', stripping), (''eis'', eis), (''ca'', ca), (''cp'', cp),
     (''gcd'', gcd_t), (''cc'', cc), (''purge'', purge)]"

record category_def =
  cat_label :: string
  techniques :: "string list"

definition TECHNIQUE_CATEGORIES :: "category_def object" where
  "TECHNIQUE_CATEGORIES =
    [(''measurement'', \<lparr>cat_label = ''Potential Measurement'', techniques = [''ocp'']\<rparr>),
     (''voltammetry'',
        \<lparr>cat_label = ''Voltammetry'',
         techniques = [''cv'', ''lsv'', ''dpv'', ''swv'', ''stripping'']\<rparr>),
     (''impedance'', \<lparr>cat_label = ''Impedance'', techniques = [''eis'']\<rparr>),
     (''chronomethod'',
        \<lparr>cat_label = ''Chronomethods'', techniques = [''ca'', ''cp'', ''gcd'', ''cc'']\<rparr>),
     (''auxiliary'', \<lparr>cat_label = ''Auxiliary'', techniques = [''purge'']\<rparr>)]"

section \<open>Steps and default steps (techniques.js)\<close>

record step =
  step_id :: string
  technique :: string
  params :: "jsval object"
  tag :: string

datatype error = UnknownTechnique string | TypeError

text \<open>
  \<open>createDefaultStep(techniqueId)\<close>. The identifier of the new step is built from the
  clock and a random number; both texts are arguments here. A technique id that names a
  property of \<open>Object.prototype\<close> passes the test \<open>if (!tech)\<close>, since the inherited value
  is a function or an object; \<open>tech.params\<close> is then \<open>undefined\<close> and
  \<open>Object.entries(undefined)\<close> throws a TypeError.
\<close>

definition createDefaultStep :: "string \<Rightarrow> string \<Rightarrow> string \<Rightarrow> error + step" where
  "createDefaultStep now random techniqueId =
    (case get_prop TECHNIQUES techniqueId of
       Absent \<Rightarrow> Inl (UnknownTechnique techniqueId)
     | Inherited \<Rightarrow> Inl TypeError
     | Own tech \<Rightarrow>
         Inr \<lparr>step_id = ''step-'' @ now @ ''-'' @ random,
              technique = techniqueId,
              params = map (\<lambda>(key, config). (key, default_p config)) (tech_params tech),
              tag = []\<rparr>)"

section \<open>The validator (validation.js)\<close>

datatype level = ERROR | WARNING | INFO

text \<open>
  The message of an issue. The two messages of the bounds sweep are template strings that
  print the label and the bound; they are kept as label and bound. Punctuation outside
  ASCII in the fixed messages is written in ASCII.
\<close>

datatype message =
    Text string
  | BelowMinimum string rat
  | AboveMaximum string rat

record issue =
  level :: level
  code :: string
  message :: message
  param :: "string option"
  stepIndex :: "int option"

subsection \<open>Technique-specific rules\<close>

definition cv_rules :: "step \<Rightarrow> issue list" where
  "cv_rules step =
    (if technique step = ''cv'' then
       (let vertex1_V = getp (params step) ''vertex1_V'';
            vertex2_V = getp (params step) ''vertex2_V'';
            scan_rate_mV_s = getp (params step) ''scan_rate_mV_s'';
            cycles = getp (params step) ''cycles''
        in
          (if js_gt scan_rate_mV_s 10000 then
             [\<lparr>level = ERROR, code = ''PV001'',
               message = Text ''Scan rate exceeds instrument limit (10 V/s)'',
               param = Some ''scan_rate_mV_s'', stepIndex = None\<rparr>]
           else []) @
          (if js_gt scan_rate_mV_s 0 \<and> js_lt scan_rate_mV_s 0.1 then
             [\<lparr>level = ERROR, code = ''PV002'',
               message = Text ''Scan rate too slow (<0.1 mV/s) - may cause drift artifacts'',
               param = Some ''scan_rate_mV_s'', stepIndex = None\<rparr>]
           else []) @
          (if js_lt cycles 1 then
             [\<lparr>level = ERROR, code = ''PV003'',
               message = Text ''At least 1 cycle required'',
               param = Some ''cycles'', stepIndex = None\<rparr>]
           else []) @
          (if vertex1_V \<noteq> JNull \<and> vertex2_V \<noteq> JNull
              \<and> num_eq (parseFloat vertex1_V) (parseFloat vertex2_V) then
             [\<lparr>level = ERROR, code = ''PV004'',
               message = Text ''Vertex potentials must differ'',
               param = Some ''vertex1_V'', stepIndex = None\<rparr>]
           else []) @
          (if js_ge cycles 1 \<and> js_lt cycles 3 then
             [\<lparr>level = WARNING, code = ''DR011'',
               message = Text ''Consider >=3 cycles for reproducible steady-state response'',
               param = Some ''cycles'', stepIndex = None\<rparr>]
           else []))
     else [])"

definition eis_rules :: "step \<Rightarrow> issue list" where
  "eis_rules step =
    (if technique step = ''eis'' then
       (let f_start_Hz = getp (params step) ''f_start_Hz'';
            f_end_Hz = getp (params step) ''f_end_Hz'';
            amplitude_mV = getp (params step) ''amplitude_mV''
        in
          (if f_start_Hz \<noteq> JNull \<and> f_end_Hz \<noteq> JNull
              \<and> num_le (parseFloat f_start_Hz) (parseFloat f_end_Hz) then
             [\<lparr>level = ERROR, code = ''PV005'',
               message = Text ''Start frequency must be greater than end frequency'',
               param = Some ''f_start_Hz'', stepIndex = None\<rparr>]
           else []) @
          (if js_gt f_start_Hz 10000000 then
             [\<lparr>level = ERROR, code = ''PV006'',
               message = Text ''Start frequency exceeds 10 MHz (instrument limit)'',
               param = Some ''f_start_Hz'', stepIndex = None\<rparr>]
           else []) @
          (if js_lt f_end_Hz 0.000001 then
             [\<lparr>level = ERROR, code = ''PV007'',
               message = Text ''End frequency below 1 uHz (impractical)'',
               param = Some ''f_end_Hz'', stepIndex = None\<rparr>]
           else []) @
          (if js_le amplitude_mV 0 then
             [\<lparr>level = ERROR, code = ''PV008'',
               message = Text ''Amplitude must be positive'',
               param = Some ''amplitude_mV'', stepIndex = None\<rparr>]
           else []) @
          (if js_gt amplitude_mV 100 then
             [\<lparr>level = ERROR, code = ''PV009'',
               message = Text ''Amplitude exceeds 100 mV - will violate linearity assumption'',
               param = Some ''amplitude_mV'', stepIndex = None\<rparr>]
           else []) @
          (if js_gt amplitude_mV 10 \<and> js_le amplitude_mV 100 then
             [\<lparr>level = WARNING, code = ''DR005'',
               message = Text
                 ''Amplitude >10 mV may introduce nonlinear artifacts in impedance spectra'',
               param = Some ''amplitude_mV'', stepIndex = None\<rparr>]
           else []))
     else [])"

definition ocp_rules :: "step \<Rightarrow> issue list" where
  "ocp_rules step =
    (if technique step = ''ocp'' then
       (let duration_s = getp (params step) ''duration_s''
        in
          (if js_le duration_s 0 then
             [\<lparr>level = ERROR, code = ''PV011'',
               message = Text ''Duration must be positive'',
               param = Some ''duration_s'', stepIndex = None\<rparr>]
           else []) @
          (if js_gt duration_s 0 \<and> js_lt duration_s 30 then
             [\<lparr>level = WARNING, code = ''DR004'',
               message = Text ''OCP duration <30s may not allow electrode equilibration'',
               param = Some ''duration_s'', stepIndex = None\<rparr>]
           else []))
     else [])"

definition ca_cp_rules :: "step \<Rightarrow> issue list" where
  "ca_cp_rules step =
    (if technique step = ''ca'' \<or> technique step = ''cp'' then
       (let duration_s = getp (params step) ''duration_s'';
            potential_V = getp (params step) ''potential_V'';
            current_mA = getp (params step) ''current_mA''
        in
          (if js_le duration_s 0 then
             [\<lparr>level = ERROR, code = ''PV011'',
               message = Text ''Duration must be positive'',
               param = Some ''duration_s'', stepIndex = None\<rparr>]
           else []) @
          (if technique step = ''ca'' \<and> js_gt (Math_abs potential_V) 10 then
             [\<lparr>level = ERROR, code = ''PV010'',
               message = Text ''Potential outside +/-10 V range'',
               param = Some ''potential_V'', stepIndex = None\<rparr>]
           else []) @
          (if technique step = ''ca'' \<and> js_gt (Math_abs potential_V) 2.5 then
             [\<lparr>level = WARNING, code = ''DR001'',
               message = Text ''High potential may exceed aqueous solvent stability window'',
               param = Some ''potential_V'', stepIndex = None\<rparr>]
           else []) @
          (if technique step = ''cp'' \<and> js_gt (Math_abs current_mA) 100 then
             [\<lparr>level = WARNING, code = ''DR009'',
               message = Text
                 ''High current - verify electrode area can support this current density'',
               param = Some ''current_mA'', stepIndex = None\<rparr>]
           else []))
     else [])"

definition lsv_rules :: "step \<Rightarrow> issue list" where
  "lsv_rules step =
    (if technique step = ''lsv'' then
       (let start_V = getp (params step) ''start_V'';
            end_V = getp (params step) ''end_V'';
            scan_rate_mV_s = getp (params step) ''scan_rate_mV_s''
        in
          (if js_gt scan_rate_mV_s 10000 then
             [\<lparr>level = ERROR, code = ''PV001'',
               message = Text ''Scan rate exceeds 10 V/s'',
               param = Some ''scan_rate_mV_s'', stepIndex = None\<rparr>]
           else []) @
          (if js_gt scan_rate_mV_s 0 \<and> js_lt scan_rate_mV_s 0.1 then
             [\<lparr>level = ERROR, code = ''PV002'',
               message = Text ''Scan rate too slow (<0.1 mV/s)'',
               param = Some ''scan_rate_mV_s'', stepIndex = None\<rparr>]
           else []) @
          (if js_gt (Math_abs start_V) 10 \<or> js_gt (Math_abs end_V) 10 then
             [\<lparr>level = ERROR, code = ''PV010'',
               message = Text ''Potential outside +/-10 V range'',
               param = Some (if js_gt (Math_abs start_V) 10 then ''start_V'' else ''end_V''),
               stepIndex = None\<rparr>]
           else []))
     else [])"

definition purge_rules :: "step \<Rightarrow> issue list" where
  "purge_rules step =
    (if technique step = ''purge'' then
       (let duration_min = getp (params step) ''duration_min''
        in
          (if js_lt duration_min 1 then
             [\<lparr>level = ERROR, code = ''PV011'',
               message = Text ''Purge duration must be at least 1 minute'',
               param = Some ''duration_min'', stepIndex = None\<rparr>]
           else []) @
          (if js_ge duration_min 1 \<and> js_lt duration_min 10 then
             [\<lparr>level = WARNING, code = ''DR007'',
               message = Text ''Purge <10 min may not achieve full gas saturation'',
               param = Some ''duration_min'', stepIndex = None\<rparr>]
           else []))
     else [])"

text \<open>The blocks run in the order of the source, each appending to the list of issues.\<close>

definition technique_rules :: "step \<Rightarrow> issue list" where
  "technique_rules step =
    cv_rules step @ eis_rules step @ ocp_rules step @ ca_cp_rules step
      @ lsv_rules step @ purge_rules step"

subsection \<open>Generic bounds sweep\<close>

text \<open>
  The body of the \<open>forEach\<close> over \<open>Object.entries(step.params)\<close>, for one entry.
  \<open>paramDef\<close> is \<open>tech.params[key]\<close>: when the key names a property of
  \<open>Object.prototype\<close>, \<open>paramDef\<close> is a function or an object whose \<open>min\<close> and \<open>max\<close> are
  \<open>undefined\<close>, and nothing is pushed.
\<close>

definition bounds_entry :: "param_spec object \<Rightarrow> string \<times> jsval \<Rightarrow> issue list" where
  "bounds_entry tparams entry =
    (case entry of (key, val) \<Rightarrow>
      (case get_prop tparams key of
         Absent \<Rightarrow> []
       | Inherited \<Rightarrow> []
       | Own paramDef \<Rightarrow>
           (case min_p paramDef of
              Some lo \<Rightarrow>
                (if js_lt val lo then
                   [\<lparr>level = ERROR, code = ''PV000'',
                     message = BelowMinimum (label paramDef) lo,
                     param = Some key, stepIndex = None\<rparr>]
                 else [])
            | None \<Rightarrow> []) @
           (case max_p paramDef of
              Some hi \<Rightarrow>
                (if js_gt val hi then
                   [\<lparr>level = ERROR, code = ''PV000'',
                     message = AboveMaximum (label paramDef) hi,
                     param = Some key, stepIndex = None\<rparr>]
                 else [])
            | None \<Rightarrow> [])))"

definition bounds_sweep :: "technique_def \<Rightarrow> step \<Rightarrow> issue list" where
  "bounds_sweep tech step = concat (map (bounds_entry (tech_params tech)) (params step))"

subsection \<open>validateStep\<close>

text \<open>
  \<open>validateStep(step)\<close>. When \<open>step.technique\<close> names a property of \<open>Object.prototype\<close>,
  \<open>tech\<close> is that inherited function or object: the test \<open>if (!tech)\<close> does not stop, no
  technique block applies, \<open>tech.params\<close> is \<open>undefined\<close>, and the sweep throws a TypeError
  at the first entry of \<open>step.params\<close> (with no entry, the empty list is returned).
\<close>

definition validateStep :: "step \<Rightarrow> error + issue list" where
  "validateStep step =
    (case get_prop TECHNIQUES (technique step) of
       Absent \<Rightarrow>
         Inr [\<lparr>level = ERROR, code = ''PV000'',
               message = Text (''Unknown technique: '' @ technique step),
               param = None, stepIndex = None\<rparr>]
     | Inherited \<Rightarrow>
         (if params step = [] then Inr (technique_rules step) else Inl TypeError)
     | Own tech \<Rightarrow> Inr (technique_rules step @ bounds_sweep tech step))"

subsection \<open>validateProcedure\<close>

text \<open>The procedure metadata, with the fields the editor keeps (App.jsx).\<close>

record metadata =
  meta_name :: string
  author :: string
  description :: string
  electrodes :: jsval
  reference :: string
  electrolyte :: string
  temperature :: jsval
  working_electrode :: string
  counter_electrode :: string

text \<open>\<open>Array.prototype.findIndex\<close>: the index of the first match, or \<open>-1\<close>.\<close>

fun findIndex :: "('a \<Rightarrow> bool) \<Rightarrow> 'a list \<Rightarrow> int" where
  "findIndex P [] = -1"
| "findIndex P (x # xs) =
    (if P x then 0 else (let i = findIndex P xs in if i < 0 then -1 else i + 1))"

text \<open>
  \<open>Array.prototype.slice(start, end)\<close>: a negative index counts from the end of the
  array, and both indices are clamped to the array.
\<close>

definition slice :: "'a list \<Rightarrow> int \<Rightarrow> int \<Rightarrow> 'a list" where
  "slice xs start end =
    (let len = int (length xs);
         k = (if start < 0 then max (len + start) 0 else min start len);
         final = (if end < 0 then max (len + end) 0 else min end len)
     in take (nat (final - k)) (drop (nat k) xs))"

definition measurementTechs :: "string list" where
  "measurementTechs = [''lsv'', ''cv'', ''eis'']"

definition conditioningTechs :: "string list" where
  "conditioningTechs = [''cv'', ''purge'', ''ocp'']"

definition validateProcedure :: "step list \<Rightarrow> metadata \<Rightarrow> issue list" where
  "validateProcedure steps unused_metadata =
    (let firstMeasurementIndex = findIndex (\<lambda>s. technique s \<in> set measurementTechs) steps;
         hasConditioningBefore =
           list_ex (\<lambda>s. technique s \<in> set conditioningTechs)
             (slice steps 0 firstMeasurementIndex);
         hasLSV = list_ex (\<lambda>s. technique s = ''lsv'') steps;
         hasPurge = list_ex (\<lambda>s. technique s = ''purge'') steps;
         hasIrComp = list_ex (\<lambda>s. getp (params s) ''ir_compensation'' = JBool True) steps;
         hasEIS = list_ex (\<lambda>s. technique s = ''eis'') steps
     in
       (if firstMeasurementIndex > 0 \<and> \<not> hasConditioningBefore then
          [\<lparr>level = WARNING, code = ''DR006'',
            message = Text
              ''Consider adding conditioning (OCP, CV, or purge) before first measurement'',
            param = None, stepIndex = Some firstMeasurementIndex\<rparr>]
        else []) @
       (if hasLSV \<and> \<not> hasPurge then
          [\<lparr>level = WARNING, code = ''DR007'',
            message = Text
              (''Consider adding gas purge before LSV for defined atmosphere ''
                @ ''(O2 for ORR, N2 for background)''),
            param = None, stepIndex = None\<rparr>]
        else []) @
       (if hasIrComp \<and> \<not> hasEIS then
          [\<lparr>level = WARNING, code = ''DR008'',
            message = Text ''iR compensation enabled but no EIS measurement to determine Ru'',
            param = None, stepIndex = None\<rparr>]
        else []))"

subsection \<open>summarizeIssues and isValid\<close>

record summary =
  errors :: "issue list"
  warnings :: "issue list"
  infos :: "issue list"

definition summarizeIssues :: "issue list \<Rightarrow> summary" where
  "summarizeIssues issues =
    \<lparr>errors = filter (\<lambda>i. level i = ERROR) issues,
     warnings = filter (\<lambda>i. level i = WARNING) issues,
     infos = filter (\<lambda>i. level i = INFO) issues\<rparr>"

text \<open>
  \<open>steps.flatMap(validateStep)\<close>: the issues of the steps in order; an exception thrown for
  a step ends the whole call.
\<close>

fun flatMap :: "('a \<Rightarrow> error + 'b list) \<Rightarrow> 'a list \<Rightarrow> error + 'b list" where
  "flatMap f [] = Inr []"
| "flatMap f (x # xs) =
    (case f x of
       Inl e \<Rightarrow> Inl e
     | Inr ys \<Rightarrow> (case flatMap f xs of Inl e \<Rightarrow> Inl e | Inr zs \<Rightarrow> Inr (ys @ zs)))"

definition isValid :: "step list \<Rightarrow> metadata \<Rightarrow> error + bool" where
  "isValid steps metadata =
    (case flatMap validateStep steps of
       Inl e \<Rightarrow> Inl e
     | Inr stepIssues \<Rightarrow>
         (let procIssues = validateProcedure steps metadata;
              allIssues = stepIssues @ procIssues
          in Inr (\<not> list_ex (\<lambda>i. level i = ERROR) allIssues)))"

section \<open>The editor's initial document and sample steps (App.jsx)\<close>

definition default_metadata :: metadata where
  "default_metadata =
    \<lparr>meta_name = ''ORR Catalyst Characterization'', author = [], description = [],
     electrodes = num 3, reference = ''RHE'', electrolyte = ''0.1 M HClO4'',
     temperature = num 25, working_electrode = [], counter_electrode = []\<rparr>"

text \<open>
  The default steps of three techniques, as \<open>createDefaultStep\<close> builds them (the
  identifier apart).
\<close>

definition default_purge :: step where
  "default_purge =
    \<lparr>step_id = ''step-1'', technique = ''purge'',
     params = [(''gas'', JStr ''N2'' NaN NaN), (''duration_min'', num 20),
               (''flow_rate_mL_min'', num 50)],
     tag = []\<rparr>"

definition default_ocp :: step where
  "default_ocp =
    \<lparr>step_id = ''step-2'', technique = ''ocp'',
     params = [(''duration_s'', num 60), (''stability_mV_min'', num 1),
               (''sample_rate_Hz'', num 1)],
     tag = []\<rparr>"

definition default_cv :: step where
  "default_cv =
    \<lparr>step_id = ''step-3'', technique = ''cv'',
     params = [(''vertex1_V'', num 0.05), (''vertex2_V'', num 1.2),
               (''scan_rate_mV_s'', num 50), (''cycles'', num 3),
               (''start_potential_V'', JNull), (''ir_compensation'', JBool False)],
     tag = []\<rparr>"

text \<open>
  A chronoamperometry step followed by a linear sweep: the sweep is the first
  measurement, at index 1, and nothing before it conditions the electrode.
\<close>

definition unconditioned_procedure :: "step list" where
  "unconditioned_procedure =
    [\<lparr>step_id = ''step-1'', technique = ''ca'',
       params = [(''potential_V'', num 1.5), (''duration_s'', num 3600),
                 (''sample_rate_Hz'', num 1)], tag = []\<rparr>,
     \<lparr>step_id = ''step-2'', technique = ''lsv'',
       params = [(''start_V'', num 1.0), (''end_V'', num 0.2),
                 (''scan_rate_mV_s'', num 5), (''ir_compensation'', JBool False)],
       tag = []\<rparr>]"

text \<open>The default cv step with single parameters changed, as the editor changes them.\<close>

definition scan_rate_15000 :: step where
  "scan_rate_15000 =
    \<lparr>step_id = ''step-3'', technique = ''cv'',
     params = [(''vertex1_V'', num 0.05), (''vertex2_V'', num 1.2),
               (''scan_rate_mV_s'', num 15000), (''cycles'', num 3),
               (''start_potential_V'', JNull), (''ir_compensation'', JBool False)],
     tag = []\<rparr>"

definition scan_rate_100 :: step where
  "scan_rate_100 =
    \<lparr>step_id = ''step-3'', technique = ''cv'',
     params = [(''vertex1_V'', num 0.05), (''vertex2_V'', num 1.2),
               (''scan_rate_mV_s'', num 100), (''cycles'', num 3),
               (''start_potential_V'', JNull), (''ir_compensation'', JBool False)],
     tag = []\<rparr>"

text \<open>Clearing the field of a number in the editor stores \<open>null\<close> (App.jsx, ParamInput).\<close>

definition null_cycles :: step where
  "null_cycles =
    \<lparr>step_id = ''step-3'', technique = ''cv'',
     params = [(''vertex1_V'', num 0.05), (''vertex2_V'', num 1.2),
               (''scan_rate_mV_s'', num 50), (''cycles'', JNull),
               (''start_potential_V'', JNull), (''ir_compensation'', JBool False)],
     tag = []\<rparr>"

text \<open>A property read that found an own property.\<close>

definition is_own :: "'a property \<Rightarrow> bool" where
  "is_own p = (case p of Own v \<Rightarrow> True | Inherited \<Rightarrow> False | Absent \<Rightarrow> False)"

section \<open>Generators: unit conversion of the IR (generators.js)\<close>

text \<open>
  The file generators.js (\<open>generateIR\<close>, \<open>escapeYaml\<close>, \<open>escapePython\<close>) is not among the
  sources; only its tests are. The definitions of this section and of the next are
  modelled from the specification.
\<close>

text \<open>
  Modelled from the spec: the test of generators.js for a unit suffix of a parameter key
  (the specification writes the keys as \<open>*_mV_s\<close>, \<open>*_mV\<close>, \<open>*_min\<close>, \<open>*_mA\<close>). The result
  is the key without the suffix.
\<close>

definition strip_suffix :: "string \<Rightarrow> string \<Rightarrow> string option" where
  "strip_suffix suffix key =
    (if length suffix \<le> length key \<and> drop (length key - length suffix) key = suffix
     then Some (take (length key - length suffix) key) else None)"

text \<open>
  Modelled from the spec: the conversion of a value by a factor in generators.js. The
  specification speaks of numbers only; a value that is not a finite number is passed
  through.
\<close>

fun scale :: "rat \<Rightarrow> jsval \<Rightarrow> jsval" where
  "scale f (JNum (Fin x)) = JNum (Fin (x * f))"
| "scale f v = v"

text \<open>
  Modelled from the spec: the conversion of one parameter by \<open>generateIR\<close> of
  generators.js. "Every step's parameters are converted to SI base units and the original
  non-SI key is removed: mV/s to V/s (divide by 1000, key \<open>*_mV_s\<close> to \<open>*_V_s\<close>), mV to V
  (divide by 1000), minutes to seconds (multiply by 60, key \<open>*_min\<close> to \<open>*_s\<close>), mA to A
  (divide by 1000). Unit-less or already-SI parameters pass through unchanged."
\<close>

definition toSI :: "string \<times> jsval \<Rightarrow> string \<times> jsval" where
  "toSI entry =
    (case entry of (key, val) \<Rightarrow>
      (case strip_suffix ''_mV_s'' key of
         Some base \<Rightarrow> (base @ ''_V_s'', scale (1 / 1000) val)
       | None \<Rightarrow>
      (case strip_suffix ''_mV'' key of
         Some base \<Rightarrow> (base @ ''_V'', scale (1 / 1000) val)
       | None \<Rightarrow>
      (case strip_suffix ''_min'' key of
         Some base \<Rightarrow> (base @ ''_s'', scale 60 val)
       | None \<Rightarrow>
      (case strip_suffix ''_mA'' key of
         Some base \<Rightarrow> (base @ ''_A'', scale (1 / 1000) val)
       | None \<Rightarrow> (key, val))))))"

text \<open>
  Modelled from the spec: the parameters of one step of the IR that \<open>generateIR\<close> of
  generators.js produces, every parameter of the step converted in turn.
\<close>

definition ir_params :: "jsval object \<Rightarrow> jsval object" where
  "ir_params ps = map toSI ps"

text \<open>A key that carries one of the four non-SI unit suffixes.\<close>

definition non_SI_key :: "string \<Rightarrow> bool" where
  "non_SI_key key =
    (strip_suffix ''_mV_s'' key \<noteq> None \<or> strip_suffix ''_mV'' key \<noteq> None
      \<or> strip_suffix ''_min'' key \<noteq> None \<or> strip_suffix ''_mA'' key \<noteq> None)"

section \<open>Generators: quote escaping (generators.js)\<close>

text \<open>The argument of an escaping function: \<open>null\<close>, \<open>undefined\<close> or a string.\<close>

datatype text_arg = Null | Undefined | Str string

definition backslash :: char where
  "backslash = CHR 0x5C"

definition double_quote :: char where
  "double_quote = CHR 0x22"

definition single_quote :: char where
  "single_quote = CHR 0x27"

definition newline :: char where
  "newline = CHR 0x0A"

definition tab :: char where
  "tab = CHR 0x09"

definition carriage_return :: char where
  "carriage_return = CHR 0x0D"

text \<open>
  Modelled from the spec: one pass of an escaping function of generators.js, which
  replaces every occurrence of a character by its escape sequence.
\<close>

definition replaceAll :: "char \<Rightarrow> string \<Rightarrow> string \<Rightarrow> string" where
  "replaceAll c r s = concat (map (\<lambda>x. if x = c then r else [x]) s)"

text \<open>
  Modelled from the spec: the last three passes of both escaping functions of
  generators.js, "then newline/tab/carriage-return to their two-character literal escape
  sequences".
\<close>

definition escape_controls :: "string \<Rightarrow> string" where
  "escape_controls s =
    replaceAll carriage_return [backslash, CHR ''r'']
      (replaceAll tab [backslash, CHR ''t'']
        (replaceAll newline [backslash, CHR ''n''] s))"

text \<open>
  Modelled from the spec: \<open>escapeYaml\<close> of generators.js, "escaping backslash first (to
  avoid double-escaping), then the format's quote character(s), then
  newline/tab/carriage-return"; "passing null or undefined must yield the empty string,
  never throw". The quote character of the YAML-like format is the double quote.
\<close>

definition escapeYaml :: "text_arg \<Rightarrow> string" where
  "escapeYaml a =
    (case a of
       Null \<Rightarrow> []
     | Undefined \<Rightarrow> []
     | Str s \<Rightarrow>
         escape_controls
           (replaceAll double_quote [backslash, double_quote]
             (replaceAll backslash [backslash, backslash] s)))"

text \<open>
  Modelled from the spec: \<open>escapePython\<close> of generators.js, with the same passes; the
  quote characters of the script format are the double and the single quote (the tests
  of generators.js escape both).
\<close>

definition escapePython :: "text_arg \<Rightarrow> string" where
  "escapePython a =
    (case a of
       Null \<Rightarrow> []
     | Undefined \<Rightarrow> []
     | Str s \<Rightarrow>
         escape_controls
           (replaceAll single_quote [backslash, single_quote]
             (replaceAll double_quote [backslash, double_quote]
               (replaceAll backslash [backslash, backslash] s))))"

text \<open>The escape sequence of one character, for a format with the given quote characters.\<close>

definition escape_char :: "char list \<Rightarrow> char \<Rightarrow> string" where
  "escape_char quotes c =
    (if c = backslash then [backslash, backslash]
     else if c \<in> set quotes then [backslash, c]
     else if c = newline then [backslash, CHR ''n'']
     else if c = tab then [backslash, CHR ''t'']
     else if c = carriage_return then [backslash, CHR ''r'']
     else [c])"

section \<open>Properties of the catalog\<close>

lemmas catalog_defs =
  TECHNIQUES_def ocp_def cv_def lsv_def dpv_def swv_def stripping_def
  eis_def ca_def cp_def gcd_t_def cc_def purge_def number_param_def

lemmas rules_defs =
  technique_rules_def cv_rules_def eis_rules_def ocp_rules_def ca_cp_rules_def
  lsv_rules_def purge_rules_def

text \<open>
  Claim C7. The catalog registers exactly 12 techniques, under distinct ids, and exactly
  the 5 categories measurement, voltammetry, impedance, chronomethod and auxiliary. The
  category field of every technique names one of the categories; every technique id is
  in the technique list of exactly one category, exactly once; and every id listed by a
  category is a registered technique.
\<close>

theorem catalog_consistent:
  "length TECHNIQUES = 12
   \<and> distinct (map fst TECHNIQUES)
   \<and> map fst TECHNIQUE_CATEGORIES =
        [''measurement'', ''voltammetry'', ''impedance'', ''chronomethod'', ''auxiliary'']
   \<and> list_all (\<lambda>(k, t). category t \<in> set (map fst TECHNIQUE_CATEGORIES)) TECHNIQUES
   \<and> list_all
        (\<lambda>(k, t).
           length (filter (\<lambda>(c, d). k \<in> set (techniques d)) TECHNIQUE_CATEGORIES) = 1
           \<and> count_list (concat (map (\<lambda>(c, d). techniques d) TECHNIQUE_CATEGORIES)) k = 1)
        TECHNIQUES
   \<and> list_all (\<lambda>(c, d). list_all (\<lambda>k. is_own (get_prop TECHNIQUES k)) (techniques d))
        TECHNIQUE_CATEGORIES"
  by (simp add: catalog_defs TECHNIQUE_CATEGORIES_def get_prop_def is_own_def)

section \<open>Properties of createDefaultStep\<close>

lemma createDefaultStep_own:
  assumes "get_prop TECHNIQUES techniqueId = Own tech"
  shows "\<exists>s. createDefaultStep now random techniqueId = Inr s
           \<and> technique s = techniqueId
           \<and> params s = map (\<lambda>(key, config). (key, default_p config)) (tech_params tech)
           \<and> map fst (params s) = map fst (tech_params tech)"
  using assms by (simp add: createDefaultStep_def comp_def case_prod_unfold)

lemma createDefaultStep_absent:
  assumes "get_prop TECHNIQUES techniqueId = Absent"
  shows "createDefaultStep now random techniqueId = Inl (UnknownTechnique techniqueId)"
  using assms by (simp add: createDefaultStep_def)

lemma catalog_ids_distinct: "distinct (map fst TECHNIQUES)"
  by (simp add: TECHNIQUES_def)

lemma catalog_param_keys_distinct:
  "list_all (\<lambda>(k, t). distinct (map fst (tech_params t))) TECHNIQUES"
  by (simp add: catalog_defs)

text \<open>
  For an id of the catalog, every declared parameter of the new step reads as its
  declared default.
\<close>

lemma createDefaultStep_defaults:
  assumes "(techniqueId, tech) \<in> set TECHNIQUES"
    and "(key, config) \<in> set (tech_params tech)"
  shows "\<exists>s. createDefaultStep now random techniqueId = Inr s
           \<and> map fst (params s) = map fst (tech_params tech)
           \<and> getp (params s) key = default_p config"
proof -
  have own: "get_prop TECHNIQUES techniqueId = Own tech"
    using assms(1) catalog_ids_distinct by (simp add: get_prop_def)
  from createDefaultStep_own[OF own, of now random] obtain s
    where s: "createDefaultStep now random techniqueId = Inr s"
      "params s = map (\<lambda>(key, config). (key, default_p config)) (tech_params tech)"
      "map fst (params s) = map fst (tech_params tech)"
    by blast
  have "distinct (map fst (tech_params tech))"
    using catalog_param_keys_distinct assms(1) by (auto simp: list_all_iff)
  then have "map_of (tech_params tech) key = Some config"
    using assms(2) by simp
  then have "map_of (params s) key = Some (default_p config)"
    by (simp add: s(2) map_of_map)
  then have "getp (params s) key = default_p config"
    by (simp add: getp_def)
  with s(1,3) show ?thesis by blast
qed

text \<open>
  Claim C6. The id \<open>constructor\<close> is not a technique of the catalog, yet
  \<open>createDefaultStep\<close> does not fail with the unknown-technique error for it: the lookup
  finds the property inherited from \<open>Object.prototype\<close>, the guard \<open>if (!tech)\<close> lets it
  pass, and \<open>Object.entries(tech.params)\<close> throws a TypeError.
\<close>

theorem createDefaultStep_inherited_id:
  "get_prop TECHNIQUES ''constructor'' = Inherited
   \<and> createDefaultStep now random ''constructor'' = Inl TypeError"
  by (simp add: createDefaultStep_def get_prop_def catalog_defs Object_prototype_keys_def)

section \<open>Properties of validateStep\<close>

lemma validateStep_own:
  "get_prop TECHNIQUES (technique s) = Own tech \<Longrightarrow>
     validateStep s = Inr (technique_rules s @ bounds_sweep tech s)"
  by (simp add: validateStep_def)

lemma validateStep_absent:
  "get_prop TECHNIQUES (technique s) = Absent \<Longrightarrow>
     validateStep s =
       Inr [\<lparr>level = ERROR, code = ''PV000'',
             message = Text (''Unknown technique: '' @ technique s),
             param = None, stepIndex = None\<rparr>]"
  by (simp add: validateStep_def)

text \<open>
  Claim C3. The id \<open>constructor\<close> is absent from the catalog, yet \<open>validateStep\<close> does not
  return the single PV000 issue for a step of that technique: with a parameter on the
  step it throws a TypeError, and with no parameter it returns no issue at all.
\<close>

theorem validateStep_inherited_id:
  "get_prop TECHNIQUES ''constructor'' = Inherited
   \<and> validateStep \<lparr>step_id = ''step-1'', technique = ''constructor'',
        params = [(''duration_s'', num 60)], tag = []\<rparr> = Inl TypeError
   \<and> validateStep \<lparr>step_id = ''step-1'', technique = ''constructor'',
        params = [], tag = []\<rparr> = Inr []"
  by (simp add: validateStep_def get_prop_def catalog_defs Object_prototype_keys_def
      rules_defs)

section \<open>Properties of validateProcedure\<close>

text \<open>
  Claim C10. The result of \<open>validateProcedure\<close> does not depend on the metadata: for
  every list of steps, any two metadata objects give the same list of issues.
\<close>

theorem validateProcedure_ignores_metadata:
  "validateProcedure steps m1 = validateProcedure steps m2"
  by (simp add: validateProcedure_def)

lemma findIndex_ge: "- 1 \<le> findIndex P xs"
  by (induction xs) (auto simp: Let_def)

lemma findIndex_first:
  "findIndex P xs = int n \<longleftrightarrow> (n < length xs \<and> P (xs ! n) \<and> (\<forall>j<n. \<not> P (xs ! j)))"
proof (induction xs arbitrary: n)
  case Nil
  then show ?case by simp
next
  case (Cons x xs)
  show ?case
  proof (cases "P x")
    case True
    then show ?thesis by (cases n) auto
  next
    case False
    show ?thesis
    proof (cases n)
      case 0
      with False show ?thesis using findIndex_ge[of P xs] by (auto simp: Let_def)
    next
      case (Suc m)
      have "findIndex P (x # xs) = int (Suc m) \<longleftrightarrow> findIndex P xs = int m"
        using False findIndex_ge[of P xs] by (auto simp: Let_def)
      also have "\<dots> \<longleftrightarrow> (m < length xs \<and> P (xs ! m) \<and> (\<forall>j<m. \<not> P (xs ! j)))"
        by (rule Cons.IH)
      also have "\<dots> \<longleftrightarrow>
          (Suc m < length (x # xs) \<and> P ((x # xs) ! Suc m)
            \<and> (\<forall>j<Suc m. \<not> P ((x # xs) ! j)))"
        using False by (auto simp: less_Suc_eq_0_disj)
      finally show ?thesis using Suc by simp
    qed
  qed
qed

lemma slice_prefix: "n \<le> length xs \<Longrightarrow> slice xs 0 (int n) = take n xs"
  by (simp add: slice_def Let_def)

lemma ball_take_nth:
  "n \<le> length xs \<Longrightarrow> (\<forall>s\<in>set (take n xs). Q s) \<longleftrightarrow> (\<forall>j<n. Q (xs ! j))"
  by (simp add: all_set_conv_all_nth)

text \<open>
  Claim C5. \<open>validateProcedure\<close> emits the DR006 warning exactly when the first step
  whose technique is lsv, cv or eis stands at an index \<open>n > 0\<close> and no step before it has
  technique cv, purge or ocp. With no such step, or with the first one at index 0, DR006
  is not emitted.
\<close>

theorem DR006_iff:
  "list_ex (\<lambda>i. code i = ''DR006'') (validateProcedure steps md) \<longleftrightarrow>
     (\<exists>n. 0 < n \<and> n < length steps
        \<and> technique (steps ! n) \<in> {''lsv'', ''cv'', ''eis''}
        \<and> (\<forall>j<n. technique (steps ! j) \<notin> {''lsv'', ''cv'', ''eis''})
        \<and> (\<forall>j<n. technique (steps ! j) \<notin> {''cv'', ''purge'', ''ocp''}))"
  (is "?L \<longleftrightarrow> ?R")
proof -
  let ?M = "\<lambda>s. technique s \<in> set measurementTechs"
  let ?C = "\<lambda>s. technique s \<in> set conditioningTechs"
  let ?i = "findIndex ?M steps"
  have L: "?L \<longleftrightarrow> (0 < ?i \<and> \<not> list_ex ?C (slice steps 0 ?i))"
    by (simp add: validateProcedure_def Let_def)
  show ?thesis
  proof
    assume ?L
    with L have pos: "0 < ?i" and nc: "\<not> list_ex ?C (slice steps 0 ?i)" by auto
    define n where "n = nat ?i"
    have i: "?i = int n" using pos by (simp add: n_def)
    from i have f: "n < length steps" "?M (steps ! n)" "\<forall>j<n. \<not> ?M (steps ! j)"
      using findIndex_first[of ?M steps n] by auto
    have "slice steps 0 ?i = take n steps" using f(1) i by (simp add: slice_prefix)
    with nc have "\<forall>s\<in>set (take n steps). \<not> ?C s" by (simp add: list_ex_iff)
    then have "\<forall>j<n. \<not> ?C (steps ! j)"
      using f(1) ball_take_nth[of n steps "\<lambda>s. \<not> ?C s"] by simp
    with f pos i show ?R
      by (intro exI[of _ n]) (auto simp: measurementTechs_def conditioningTechs_def)
  next
    assume ?R
    then obtain n where n: "0 < n" "n < length steps" "?M (steps ! n)"
      "\<forall>j<n. \<not> ?M (steps ! j)" "\<forall>j<n. \<not> ?C (steps ! j)"
      by (auto simp: measurementTechs_def conditioningTechs_def)
    then have i: "?i = int n" using findIndex_first[of ?M steps n] by auto
    have "slice steps 0 ?i = take n steps" using n(2) i by (simp add: slice_prefix)
    moreover have "\<forall>s\<in>set (take n steps). \<not> ?C s"
      using n(2,5) ball_take_nth[of n steps "\<lambda>s. \<not> ?C s"] by simp
    ultimately show ?L using L i n(1) by (simp add: list_ex_iff)
  qed
qed

theorem DR006_witness:
  "list_ex (\<lambda>i. code i = ''DR006'') (validateProcedure unconditioned_procedure default_metadata)"
proof -
  let ?steps = unconditioned_procedure
  have "0 < (1::nat) \<and> 1 < length ?steps
        \<and> technique (?steps ! 1) \<in> {''lsv'', ''cv'', ''eis''}
        \<and> (\<forall>j<1. technique (?steps ! j) \<notin> {''lsv'', ''cv'', ''eis''})
        \<and> (\<forall>j<1. technique (?steps ! j) \<notin> {''cv'', ''purge'', ''ocp''})"
    by (simp add: unconditioned_procedure_def)
  then show ?thesis using DR006_iff[of ?steps default_metadata] by blast
qed

section \<open>Properties of isValid\<close>

lemma flatMap_Inr:
  "map f xs = map Inr per \<Longrightarrow> flatMap f xs = Inr (concat per)"
proof (induction xs arbitrary: per)
  case Nil
  then show ?case by simp
next
  case (Cons x xs)
  then obtain p ps where per: "per = p # ps" by (cases per) auto
  with Cons.prems have "f x = Inr p" "map f xs = map Inr ps" by auto
  with Cons.IH[of ps] per show ?case by simp
qed

lemma flatMap_Inr_D:
  "flatMap f xs = Inr ys \<Longrightarrow> \<exists>per. map f xs = map Inr per \<and> ys = concat per"
proof (induction xs arbitrary: ys)
  case Nil
  then show ?case by simp
next
  case (Cons x xs)
  from Cons.prems obtain p zs where p: "f x = Inr p" "flatMap f xs = Inr zs" "ys = p @ zs"
    by (simp split: sum.splits) 
  from Cons.IH[OF p(2)] obtain ps where "map f xs = map Inr ps" "zs = concat ps" by blast
  with p have "map f (x # xs) = map Inr (p # ps) \<and> ys = concat (p # ps)" by simp
  then show ?case by blast
qed


lemma map_Inr_unique:
  "map (Inr :: 'b \<Rightarrow> 'a + 'b) p = map Inr q \<Longrightarrow> p = q"
  by (simp add: inj_map_eq_map)


lemmas js_compare_defs = js_lt_def js_gt_def js_le_def js_ge_def num_le_def num_eq_def
  Math_abs_def

lemma default_purge_valid: "validateStep default_purge = Inr []"
  by (simp add: default_purge_def validateStep_def get_prop_def catalog_defs rules_defs
      bounds_sweep_def bounds_entry_def getp_def js_compare_defs)

lemma default_ocp_valid: "validateStep default_ocp = Inr []"
  by (simp add: default_ocp_def validateStep_def get_prop_def catalog_defs rules_defs
      bounds_sweep_def bounds_entry_def getp_def js_compare_defs)

lemma default_cv_valid: "validateStep default_cv = Inr []"
  by (simp add: default_cv_def validateStep_def get_prop_def catalog_defs rules_defs
      bounds_sweep_def bounds_entry_def getp_def js_compare_defs)

text \<open>
  Claim C4. \<open>isValid(steps, metadata)\<close> returns true if and only if every step has a list
  of \<open>validateStep\<close> issues and the concatenation of these lists with the issues of
  \<open>validateProcedure\<close> holds no issue of level error; it returns false if and only if that
  concatenation holds one. Issues of level warning or info play no part.
\<close>

theorem isValid_iff_no_error:
  "(isValid steps md = Inr True \<longleftrightarrow>
      (\<exists>per_step. map validateStep steps = map Inr per_step
         \<and> \<not> list_ex (\<lambda>i. level i = ERROR) (concat per_step @ validateProcedure steps md)))
   \<and> (isValid steps md = Inr False \<longleftrightarrow>
      (\<exists>per_step. map validateStep steps = map Inr per_step
         \<and> list_ex (\<lambda>i. level i = ERROR) (concat per_step @ validateProcedure steps md)))"
proof (cases "flatMap validateStep steps")
  case (Inl e)
  have no: "\<not> (\<exists>per. map validateStep steps = map Inr per)"
  proof
    assume "\<exists>per. map validateStep steps = map Inr per"
    then obtain per where "map validateStep steps = map Inr per" ..
    from flatMap_Inr[OF this] Inl show False by simp
  qed
  have "isValid steps md = Inl e" using Inl by (simp add: isValid_def)
  with no show ?thesis by simp
next
  case (Inr ys)
  from flatMap_Inr_D[OF this] obtain per
    where per: "map validateStep steps = map Inr per" "ys = concat per" by blast
  have v: "isValid steps md =
      Inr (\<not> list_ex (\<lambda>i. level i = ERROR) (concat per @ validateProcedure steps md))"
    using Inr per(2) by (simp add: isValid_def Let_def)
  have uniq: "q = per" if "map validateStep steps = map Inr q" for q
    using that per(1) map_Inr_unique[of q per] by simp
  show ?thesis
  proof (intro conjI iffI)
    assume "isValid steps md = Inr True"
    with v per(1) show "\<exists>per_step. map validateStep steps = map Inr per_step
         \<and> \<not> list_ex (\<lambda>i. level i = ERROR) (concat per_step @ validateProcedure steps md)"
      by (intro exI[of _ per]) simp
  next
    assume "\<exists>per_step. map validateStep steps = map Inr per_step
         \<and> \<not> list_ex (\<lambda>i. level i = ERROR) (concat per_step @ validateProcedure steps md)"
    then obtain q where "map validateStep steps = map Inr q"
      "\<not> list_ex (\<lambda>i. level i = ERROR) (concat q @ validateProcedure steps md)" by blast
    with uniq[of q] v show "isValid steps md = Inr True" by simp
  next
    assume "isValid steps md = Inr False"
    with v per(1) show "\<exists>per_step. map validateStep steps = map Inr per_step
         \<and> list_ex (\<lambda>i. level i = ERROR) (concat per_step @ validateProcedure steps md)"
      by (intro exI[of _ per]) simp
  next
    assume "\<exists>per_step. map validateStep steps = map Inr per_step
         \<and> list_ex (\<lambda>i. level i = ERROR) (concat per_step @ validateProcedure steps md)"
    then obtain q where "map validateStep steps = map Inr q"
      "list_ex (\<lambda>i. level i = ERROR) (concat q @ validateProcedure steps md)" by blast
    with uniq[of q] v show "isValid steps md = Inr False" by simp
  qed
qed

theorem isValid_witness:
  "\<exists>per_step. map validateStep [default_purge, default_ocp, default_cv] = map Inr per_step
     \<and> \<not> list_ex (\<lambda>i. level i = ERROR)
          (concat per_step
             @ validateProcedure [default_purge, default_ocp, default_cv] default_metadata)"
proof -
  have "flatMap validateStep [default_purge, default_ocp, default_cv] = Inr []"
    by (simp add: default_purge_valid default_ocp_valid default_cv_valid)
  then have "isValid [default_purge, default_ocp, default_cv] default_metadata = Inr True"
    by (simp add: isValid_def validateProcedure_def Let_def)
  then show ?thesis using isValid_iff_no_error by blast
qed

section \<open>Properties of the bounds sweep\<close>

lemma bounds_entry_min:
  "get_prop tp key = Own pd \<Longrightarrow> min_p pd = Some lo \<Longrightarrow> js_lt v lo \<Longrightarrow>
     \<lparr>level = ERROR, code = ''PV000'', message = BelowMinimum (label pd) lo,
      param = Some key, stepIndex = None\<rparr> \<in> set (bounds_entry tp (key, v))"
  by (simp add: bounds_entry_def)

lemma bounds_entry_max:
  "get_prop tp key = Own pd \<Longrightarrow> max_p pd = Some hi \<Longrightarrow> js_gt v hi \<Longrightarrow>
     \<lparr>level = ERROR, code = ''PV000'', message = AboveMaximum (label pd) hi,
      param = Some key, stepIndex = None\<rparr> \<in> set (bounds_entry tp (key, v))"
  by (simp add: bounds_entry_def)

lemma bounds_sweep_entry:
  "e \<in> set (params s) \<Longrightarrow> i \<in> set (bounds_entry (tech_params tech) e) \<Longrightarrow>
     i \<in> set (bounds_sweep tech s)"
  by (auto simp: bounds_sweep_def)

text \<open>
  Claim C2. For a step whose technique is in the catalog, \<open>validateStep\<close> returns the
  issues of the technique-specific rules followed by the issues of the bounds sweep. For
  every entry of the step's parameters whose specification in the catalog declares a
  minimum, a value below the minimum gives an issue of level error with code PV000 that
  names the parameter; likewise for a value above a declared maximum. The sweep is the
  same for every technique, so a value that also violates a named rule gets both issues.
\<close>

theorem bounds_sweep_after_rules:
  assumes "get_prop TECHNIQUES (technique s) = Own tech"
  shows "validateStep s = Inr (technique_rules s @ bounds_sweep tech s)
    \<and> (\<forall>(key, v) \<in> set (params s). \<forall>pd lo.
          get_prop (tech_params tech) key = Own pd \<and> min_p pd = Some lo \<and> js_lt v lo \<longrightarrow>
          \<lparr>level = ERROR, code = ''PV000'', message = BelowMinimum (label pd) lo,
           param = Some key, stepIndex = None\<rparr> \<in> set (bounds_sweep tech s))
    \<and> (\<forall>(key, v) \<in> set (params s). \<forall>pd hi.
          get_prop (tech_params tech) key = Own pd \<and> max_p pd = Some hi \<and> js_gt v hi \<longrightarrow>
          \<lparr>level = ERROR, code = ''PV000'', message = AboveMaximum (label pd) hi,
           param = Some key, stepIndex = None\<rparr> \<in> set (bounds_sweep tech s))"
proof (intro conjI)
  show "validateStep s = Inr (technique_rules s @ bounds_sweep tech s)"
    using assms by (rule validateStep_own)
next
  show "\<forall>(key, v) \<in> set (params s). \<forall>pd lo.
          get_prop (tech_params tech) key = Own pd \<and> min_p pd = Some lo \<and> js_lt v lo \<longrightarrow>
          \<lparr>level = ERROR, code = ''PV000'', message = BelowMinimum (label pd) lo,
           param = Some key, stepIndex = None\<rparr> \<in> set (bounds_sweep tech s)"
    using bounds_sweep_entry bounds_entry_min by fast
next
  show "\<forall>(key, v) \<in> set (params s). \<forall>pd hi.
          get_prop (tech_params tech) key = Own pd \<and> max_p pd = Some hi \<and> js_gt v hi \<longrightarrow>
          \<lparr>level = ERROR, code = ''PV000'', message = AboveMaximum (label pd) hi,
           param = Some key, stepIndex = None\<rparr> \<in> set (bounds_sweep tech s)"
    using bounds_sweep_entry bounds_entry_max by fast
qed

lemma cv_own: "get_prop TECHNIQUES ''cv'' = Own cv"
  by (simp add: get_prop_def TECHNIQUES_def)

lemma scan_rate_spec:
  "get_prop (tech_params cv) ''scan_rate_mV_s'' =
     Own (number_param ''Scan rate'' TNumber (num 50) ''mV/s'' 0.1 10000)"
  by (simp add: get_prop_def cv_def)

lemma scan_rate_15000_rules:
  "technique_rules scan_rate_15000 =
     [\<lparr>level = ERROR, code = ''PV001'',
       message = Text ''Scan rate exceeds instrument limit (10 V/s)'',
       param = Some ''scan_rate_mV_s'', stepIndex = None\<rparr>]"
  by (simp add: scan_rate_15000_def rules_defs getp_def js_compare_defs)

theorem bounds_sweep_witness:
  "validateStep scan_rate_15000 =
     Inr (\<lparr>level = ERROR, code = ''PV001'',
            message = Text ''Scan rate exceeds instrument limit (10 V/s)'',
            param = Some ''scan_rate_mV_s'', stepIndex = None\<rparr>
          # bounds_sweep cv scan_rate_15000)
   \<and> \<lparr>level = ERROR, code = ''PV000'', message = AboveMaximum ''Scan rate'' 10000,
       param = Some ''scan_rate_mV_s'', stepIndex = None\<rparr>
        \<in> set (bounds_sweep cv scan_rate_15000)"
proof -
  have own: "get_prop TECHNIQUES (technique scan_rate_15000) = Own cv"
    by (simp add: scan_rate_15000_def cv_own)
  have e: "(''scan_rate_mV_s'', num 15000) \<in> set (params scan_rate_15000)"
    by (simp add: scan_rate_15000_def)
  have hi: "max_p (number_param ''Scan rate'' TNumber (num 50) ''mV/s'' 0.1 10000) = Some 10000"
    "label (number_param ''Scan rate'' TNumber (num 50) ''mV/s'' 0.1 10000) = ''Scan rate''"
    by (simp_all add: number_param_def)
  have gt: "js_gt (num 15000) 10000" by (simp add: js_gt_def)
  from bounds_sweep_after_rules[OF own] e scan_rate_spec hi gt scan_rate_15000_rules
  show ?thesis by fastforce
qed

section \<open>Null parameters in the technique-specific rules\<close>

lemma cv_rules_null:
  "getp (params s) key = JNull \<Longrightarrow> i \<in> set (cv_rules s) \<Longrightarrow> param i = Some key \<Longrightarrow>
     code i = ''PV003''"
  by (auto simp: cv_rules_def Let_def js_compare_defs split: if_splits)

lemma eis_rules_null:
  "getp (params s) key = JNull \<Longrightarrow> i \<in> set (eis_rules s) \<Longrightarrow> param i = Some key \<Longrightarrow>
     code i = ''PV007'' \<or> code i = ''PV008''"
  by (auto simp: eis_rules_def Let_def js_compare_defs split: if_splits)

lemma ocp_rules_null:
  "getp (params s) key = JNull \<Longrightarrow> i \<in> set (ocp_rules s) \<Longrightarrow> param i = Some key \<Longrightarrow>
     code i = ''PV011''"
  by (auto simp: ocp_rules_def Let_def js_compare_defs split: if_splits)

lemma ca_cp_rules_null:
  "getp (params s) key = JNull \<Longrightarrow> i \<in> set (ca_cp_rules s) \<Longrightarrow> param i = Some key \<Longrightarrow>
     code i = ''PV011''"
  by (auto simp: ca_cp_rules_def Let_def js_compare_defs split: if_splits)

lemma lsv_rules_null:
  "getp (params s) key = JNull \<Longrightarrow> i \<in> set (lsv_rules s) \<Longrightarrow> param i = Some key \<Longrightarrow> False"
  by (auto simp: lsv_rules_def Let_def js_compare_defs split: if_splits)

lemma purge_rules_null:
  "getp (params s) key = JNull \<Longrightarrow> i \<in> set (purge_rules s) \<Longrightarrow> param i = Some key \<Longrightarrow>
     code i = ''PV011''"
  by (auto simp: purge_rules_def Let_def js_compare_defs split: if_splits)

lemma technique_rules_null:
  assumes "getp (params s) key = JNull" "i \<in> set (technique_rules s)" "param i = Some key"
  shows "code i \<in> {''PV003'', ''PV007'', ''PV008'', ''PV011''}"
proof -
  from assms(2) consider "i \<in> set (cv_rules s)" | "i \<in> set (eis_rules s)"
    | "i \<in> set (ocp_rules s)" | "i \<in> set (ca_cp_rules s)" | "i \<in> set (lsv_rules s)"
    | "i \<in> set (purge_rules s)"
    by (auto simp: technique_rules_def)
  then show ?thesis
  proof cases
    case 1 then show ?thesis using cv_rules_null[OF assms(1) _ assms(3)] by simp
  next
    case 2 then show ?thesis using eis_rules_null[OF assms(1) _ assms(3)] by auto
  next
    case 3 then show ?thesis using ocp_rules_null[OF assms(1) _ assms(3)] by simp
  next
    case 4 then show ?thesis using ca_cp_rules_null[OF assms(1) _ assms(3)] by simp
  next
    case 5 then show ?thesis using lsv_rules_null[OF assms(1) _ assms(3)] by simp
  next
    case 6 then show ?thesis using purge_rules_null[OF assms(1) _ assms(3)] by simp
  qed
qed

lemma PV004_guard:
  assumes "getp (params s) ''vertex1_V'' = JNull \<or> getp (params s) ''vertex2_V'' = JNull"
  shows "\<not> list_ex (\<lambda>i. code i = ''PV004'') (technique_rules s)"
  using assms
  by (auto simp: list_ex_iff rules_defs Let_def split: if_splits)

lemma PV005_guard:
  assumes "getp (params s) ''f_start_Hz'' = JNull \<or> getp (params s) ''f_end_Hz'' = JNull"
  shows "\<not> list_ex (\<lambda>i. code i = ''PV005'') (technique_rules s)"
  using assms
  by (auto simp: list_ex_iff rules_defs Let_def split: if_splits)

lemma null_fires:
  assumes "getp (params s) key = JNull"
  shows "technique s = ''cv'' \<and> key = ''cycles'' \<longrightarrow>
           list_ex (\<lambda>i. code i = ''PV003'' \<and> param i = Some key) (technique_rules s)"
    and "technique s = ''eis'' \<and> key = ''f_end_Hz'' \<longrightarrow>
           list_ex (\<lambda>i. code i = ''PV007'' \<and> param i = Some key) (technique_rules s)"
    and "technique s = ''eis'' \<and> key = ''amplitude_mV'' \<longrightarrow>
           list_ex (\<lambda>i. code i = ''PV008'' \<and> param i = Some key) (technique_rules s)"
    and "technique s \<in> {''ocp'', ''ca'', ''cp''} \<and> key = ''duration_s'' \<longrightarrow>
           list_ex (\<lambda>i. code i = ''PV011'' \<and> param i = Some key) (technique_rules s)"
    and "technique s = ''purge'' \<and> key = ''duration_min'' \<longrightarrow>
           list_ex (\<lambda>i. code i = ''PV011'' \<and> param i = Some key) (technique_rules s)"
  using assms by (auto simp: rules_defs Let_def js_compare_defs)

text \<open>
  Claim C1, as amended. For a step whose technique is in the catalog, \<open>validateStep\<close>
  returns the issues of the technique-specific rules followed by those of the sweep. The
  technique-specific rules compare a \<open>null\<close> parameter as the number 0; only PV004 and
  PV005 test for \<open>null\<close>. So when a parameter of the step is \<open>null\<close>, the only
  technique-specific issues that name that parameter are PV003, PV007, PV008 and PV011,
  the rules whose condition holds at 0; PV004 does not fire when a vertex is
  \<open>null\<close> and PV005 does not fire when a frequency is \<open>null\<close>. And the four rules do
  fire: PV003 on a cv step with \<open>cycles = null\<close>, PV007 and PV008 on an eis step with
  \<open>f_end_Hz = null\<close> or \<open>amplitude_mV = null\<close>, PV011 on an ocp, ca or cp step with
  \<open>duration_s = null\<close> and on a purge step with \<open>duration_min = null\<close>.
\<close>

theorem null_parameter_rules:
  assumes "get_prop TECHNIQUES (technique s) = Own tech"
    and "getp (params s) key = JNull"
  shows "validateStep s = Inr (technique_rules s @ bounds_sweep tech s)
    \<and> (\<forall>i \<in> set (technique_rules s).
            param i = Some key \<longrightarrow> code i \<in> {''PV003'', ''PV007'', ''PV008'', ''PV011''})
    \<and> (key \<in> {''vertex1_V'', ''vertex2_V''} \<longrightarrow>
          \<not> list_ex (\<lambda>i. code i = ''PV004'') (technique_rules s))
    \<and> (key \<in> {''f_start_Hz'', ''f_end_Hz''} \<longrightarrow>
          \<not> list_ex (\<lambda>i. code i = ''PV005'') (technique_rules s))
    \<and> (technique s = ''cv'' \<and> key = ''cycles'' \<longrightarrow>
          list_ex (\<lambda>i. code i = ''PV003'' \<and> param i = Some key) (technique_rules s))
    \<and> (technique s = ''eis'' \<and> key = ''f_end_Hz'' \<longrightarrow>
          list_ex (\<lambda>i. code i = ''PV007'' \<and> param i = Some key) (technique_rules s))
    \<and> (technique s = ''eis'' \<and> key = ''amplitude_mV'' \<longrightarrow>
          list_ex (\<lambda>i. code i = ''PV008'' \<and> param i = Some key) (technique_rules s))
    \<and> (technique s \<in> {''ocp'', ''ca'', ''cp''} \<and> key = ''duration_s'' \<longrightarrow>
          list_ex (\<lambda>i. code i = ''PV011'' \<and> param i = Some key) (technique_rules s))
    \<and> (technique s = ''purge'' \<and> key = ''duration_min'' \<longrightarrow>
          list_ex (\<lambda>i. code i = ''PV011'' \<and> param i = Some key) (technique_rules s))"
proof -
  have 0: "validateStep s = Inr (technique_rules s @ bounds_sweep tech s)"
    using assms(1) by (rule validateStep_own)
  have 1: "\<forall>i \<in> set (technique_rules s).
            param i = Some key \<longrightarrow> code i \<in> {''PV003'', ''PV007'', ''PV008'', ''PV011''}"
    using technique_rules_null[OF assms(2)] by blast
  have 2: "key \<in> {''vertex1_V'', ''vertex2_V''} \<longrightarrow>
          \<not> list_ex (\<lambda>i. code i = ''PV004'') (technique_rules s)"
    using assms(2) PV004_guard[of s] by auto
  have 3: "key \<in> {''f_start_Hz'', ''f_end_Hz''} \<longrightarrow>
          \<not> list_ex (\<lambda>i. code i = ''PV005'') (technique_rules s)"
    using assms(2) PV005_guard[of s] by auto
  from 0 1 2 3 null_fires[OF assms(2)] show ?thesis by (intro conjI)
qed

lemma null_cycles_read: "getp (params null_cycles) ''cycles'' = JNull"
  by (simp add: null_cycles_def getp_def)

lemma null_cycles_technique: "get_prop TECHNIQUES (technique null_cycles) = Own cv"
  by (simp add: null_cycles_def get_prop_def TECHNIQUES_def)

theorem null_parameter_witness:
  "validateStep null_cycles = Inr (technique_rules null_cycles @ bounds_sweep cv null_cycles)
   \<and> list_ex (\<lambda>i. code i = ''PV003'' \<and> param i = Some ''cycles'') (technique_rules null_cycles)
   \<and> \<not> list_ex (\<lambda>i. code i = ''DR011'' \<and> param i = Some ''cycles'')
         (technique_rules null_cycles)"
proof -
  note T = null_parameter_rules[OF null_cycles_technique null_cycles_read]
  have t: "technique null_cycles = ''cv''" by (simp add: null_cycles_def)
  have V: "validateStep null_cycles =
      Inr (technique_rules null_cycles @ bounds_sweep cv null_cycles)"
    using T[THEN conjunct1] .
  have A: "list_ex (\<lambda>i. code i = ''PV003'' \<and> param i = Some ''cycles'')
      (technique_rules null_cycles)"
    using T[THEN conjunct2, THEN conjunct2, THEN conjunct2, THEN conjunct2, THEN conjunct1] t
    by simp
  have "\<forall>i \<in> set (technique_rules null_cycles).
      param i = Some ''cycles'' \<longrightarrow> code i \<in> {''PV003'', ''PV007'', ''PV008'', ''PV011''}"
    using T[THEN conjunct2, THEN conjunct1] .
  then have B: "\<not> list_ex (\<lambda>i. code i = ''DR011'' \<and> param i = Some ''cycles'')
      (technique_rules null_cycles)"
    by (auto simp: list_ex_iff)
  from V A B show ?thesis by (intro conjI)
qed

text \<open>
  The claim C1 as the specification states it fails: the default cv step with
  \<open>cycles = null\<close> receives PV003 (and PV000 from the sweep), while the default cv step
  itself receives no issue.
\<close>

theorem null_cycles_counterexample:
  "get_prop TECHNIQUES ''cv'' = Own cv
   \<and> validateStep
       \<lparr>step_id = ''step-3'', technique = ''cv'',
        params = [(''vertex1_V'', num 0.05), (''vertex2_V'', num 1.2),
                  (''scan_rate_mV_s'', num 50), (''cycles'', JNull),
                  (''start_potential_V'', JNull), (''ir_compensation'', JBool False)],
        tag = []\<rparr>
     = Inr [\<lparr>level = ERROR, code = ''PV003'', message = Text ''At least 1 cycle required'',
             param = Some ''cycles'', stepIndex = None\<rparr>,
            \<lparr>level = ERROR, code = ''PV000'', message = BelowMinimum ''Cycles'' 1,
             param = Some ''cycles'', stepIndex = None\<rparr>]
   \<and> validateStep
       \<lparr>step_id = ''step-3'', technique = ''cv'',
        params = [(''vertex1_V'', num 0.05), (''vertex2_V'', num 1.2),
                  (''scan_rate_mV_s'', num 50), (''cycles'', num 3),
                  (''start_potential_V'', JNull), (''ir_compensation'', JBool False)],
        tag = []\<rparr>
     = Inr []"
  by (simp add: validateStep_def get_prop_def catalog_defs rules_defs
      bounds_sweep_def bounds_entry_def getp_def js_compare_defs)

section \<open>Properties of the unit conversion of the IR\<close>

lemma strip_suffix_append: "strip_suffix suffix (b @ suffix) = Some b"
  by (simp add: strip_suffix_def)

lemma strip_suffix_SomeD: "strip_suffix suffix key = Some b \<Longrightarrow> key = b @ suffix"
  by (auto simp: strip_suffix_def split: if_splits)
     (metis append_take_drop_id)

lemma strip_suffix_last:
  "strip_suffix suffix key = Some b \<Longrightarrow> suffix \<noteq> [] \<Longrightarrow> last key = last suffix"
  by (drule strip_suffix_SomeD) simp

lemma not_mV_s:
  "last key \<noteq> CHR ''s'' \<Longrightarrow> strip_suffix ''_mV_s'' key = None"
  using strip_suffix_last[of "''_mV_s''" key] by (cases "strip_suffix ''_mV_s'' key") auto

lemma not_mV:
  "last key \<noteq> CHR ''V'' \<Longrightarrow> strip_suffix ''_mV'' key = None"
  using strip_suffix_last[of "''_mV''" key] by (cases "strip_suffix ''_mV'' key") auto

lemma not_min:
  "last key \<noteq> CHR ''n'' \<Longrightarrow> strip_suffix ''_min'' key = None"
  using strip_suffix_last[of "''_min''" key] by (cases "strip_suffix ''_min'' key") auto

lemma toSI_mV_s: "toSI (b @ ''_mV_s'', num x) = (b @ ''_V_s'', num (x / 1000))"
  by (simp add: toSI_def strip_suffix_append)

lemma toSI_mV: "toSI (b @ ''_mV'', num x) = (b @ ''_V'', num (x / 1000))"
  by (simp add: toSI_def strip_suffix_append not_mV_s)

lemma toSI_min: "toSI (b @ ''_min'', num x) = (b @ ''_s'', num (x * 60))"
  by (simp add: toSI_def strip_suffix_append not_mV_s not_mV)

lemma toSI_mA: "toSI (b @ ''_mA'', num x) = (b @ ''_A'', num (x / 1000))"
  by (simp add: toSI_def strip_suffix_append not_mV_s not_mV not_min)

lemma toSI_key: "fst (toSI (key, v)) = fst (toSI (key, JNull))"
  by (simp add: toSI_def split: option.splits)



lemma append_suffix_neq: "length t = length u \<Longrightarrow> t \<noteq> u \<Longrightarrow> c @ t \<noteq> d @ u"
  by simp

lemma V_s_not_mV_s: "strip_suffix ''_mV_s'' (c @ ''_V_s'') = None"
proof (cases "strip_suffix ''_mV_s'' (c @ ''_V_s'')")
  case None
  then show ?thesis .
next
  case (Some d)
  then have "c @ ''_V_s'' = (d @ ''_'') @ ''mV_s''" by (auto dest: strip_suffix_SomeD)
  moreover have "c @ ''_V_s'' \<noteq> (d @ ''_'') @ ''mV_s''"
    by (rule append_suffix_neq) simp_all
  ultimately show ?thesis by contradiction
qed

lemma V_not_mV: "strip_suffix ''_mV'' (c @ ''_V'') = None"
proof (cases "strip_suffix ''_mV'' (c @ ''_V'')")
  case None
  then show ?thesis .
next
  case (Some d)
  then have "c @ ''_V'' = (d @ ''_'') @ ''mV''" by (auto dest: strip_suffix_SomeD)
  moreover have "c @ ''_V'' \<noteq> (d @ ''_'') @ ''mV''"
    by (rule append_suffix_neq) simp_all
  ultimately show ?thesis by contradiction
qed

lemma A_not_mA: "strip_suffix ''_mA'' (c @ ''_A'') = None"
proof (cases "strip_suffix ''_mA'' (c @ ''_A'')")
  case None
  then show ?thesis .
next
  case (Some d)
  then have "c @ ''_A'' = (d @ ''_'') @ ''mA''" by (auto dest: strip_suffix_SomeD)
  moreover have "c @ ''_A'' \<noteq> (d @ ''_'') @ ''mA''"
    by (rule append_suffix_neq) simp_all
  ultimately show ?thesis by contradiction
qed

lemma not_mA:
  "last key \<noteq> CHR ''A'' \<Longrightarrow> strip_suffix ''_mA'' key = None"
  using strip_suffix_last[of "''_mA''" key] by (cases "strip_suffix ''_mA'' key") auto

lemma s_mV_s: "strip_suffix ''_mV_s'' (c @ ''_s'') = Some d \<Longrightarrow> c = d @ ''_mV''"
  by (drule strip_suffix_SomeD) simp

text \<open>
  A converted key carries a non-SI suffix only when the original key ends in
  \<open>_mV_min\<close>, which the minutes rule turns into \<open>_mV_s\<close>.
\<close>

lemma non_SI_key_toSI:
  assumes "non_SI_key (fst (toSI (k, v)))"
  shows "\<exists>c. k = c @ ''_mV_min''"
proof (cases "strip_suffix ''_mV_s'' k")
  case (Some b)
  then have "fst (toSI (k, v)) = b @ ''_V_s''" by (simp add: toSI_def)
  with assms show ?thesis
    by (simp add: non_SI_key_def V_s_not_mV_s not_mV not_min not_mA)
next
  case n1: None
  show ?thesis
  proof (cases "strip_suffix ''_mV'' k")
    case (Some b)
    then have "fst (toSI (k, v)) = b @ ''_V''" using n1 by (simp add: toSI_def)
    with assms show ?thesis
      by (simp add: non_SI_key_def V_not_mV not_mV_s not_min not_mA)
  next
    case n2: None
    show ?thesis
    proof (cases "strip_suffix ''_min'' k")
      case (Some b)
      then have f: "fst (toSI (k, v)) = b @ ''_s''" using n1 n2 by (simp add: toSI_def)
      with assms obtain d where "strip_suffix ''_mV_s'' (b @ ''_s'') = Some d"
        by (auto simp: non_SI_key_def not_mV not_min not_mA)
      then have "b = d @ ''_mV''" by (rule s_mV_s)
      moreover have "k = b @ ''_min''" using Some by (rule strip_suffix_SomeD)
      ultimately show ?thesis by simp
    next
      case n3: None
      show ?thesis
      proof (cases "strip_suffix ''_mA'' k")
        case (Some b)
        then have "fst (toSI (k, v)) = b @ ''_A''" using n1 n2 n3 by (simp add: toSI_def)
        with assms show ?thesis
          by (simp add: non_SI_key_def A_not_mA not_mV_s not_mV not_min)
      next
        case None
        then have "fst (toSI (k, v)) = k" using n1 n2 n3 by (simp add: toSI_def)
        with assms n1 n2 n3 None show ?thesis by (simp add: non_SI_key_def)
      qed
    qed
  qed
qed


lemma catalog_mV_min_keys:
  "list_all
     (\<lambda>(tid, tech).
        list_all
          (\<lambda>k. case strip_suffix ''_mV_min'' k of
                 None \<Rightarrow> True
               | Some c \<Rightarrow> c @ ''_mV_s'' \<notin> set (map fst (tech_params tech)))
          (map fst (tech_params tech)))
     TECHNIQUES"
  by (simp add: catalog_defs strip_suffix_def)


lemma ir_params_in: "(key, v) \<in> set ps \<Longrightarrow> toSI (key, v) \<in> set (ir_params ps)"
  by (auto simp: ir_params_def)

lemma strip_min_mV_min: "strip_suffix ''_min'' (c @ ''_mV_min'') = Some (c @ ''_mV'')"
  using strip_suffix_append[of "''_min''" "c @ ''_mV''"] by simp

lemma catalog_key_removed:
  assumes "(tid, tech) \<in> set TECHNIQUES"
    and "set (map fst ps) \<subseteq> set (map fst (tech_params tech))"
    and "key \<in> set (map fst ps)" and "non_SI_key key"
  shows "key \<notin> set (map fst (ir_params ps))"
proof
  assume "key \<in> set (map fst (ir_params ps))"
  then obtain k' v' where kv: "(k', v') \<in> set ps" "fst (toSI (k', v')) = key"
    by (auto simp: ir_params_def)
  with assms(4) obtain c where c: "k' = c @ ''_mV_min''"
    using non_SI_key_toSI[of k' v'] by auto
  then have key: "key = c @ ''_mV_s''"
    using kv(2) by (simp add: toSI_def strip_min_mV_min not_mV_s not_mV)
  have k': "k' \<in> set (map fst (tech_params tech))" using kv(1) assms(2) by force
  have k: "key \<in> set (map fst (tech_params tech))" using assms(2,3) by blast
  from catalog_mV_min_keys assms(1)
  have "list_all
          (\<lambda>k. case strip_suffix ''_mV_min'' k of
                 None \<Rightarrow> True
               | Some c \<Rightarrow> c @ ''_mV_s'' \<notin> set (map fst (tech_params tech)))
          (map fst (tech_params tech))"
    by (auto simp: list_all_iff)
  with k' have "case strip_suffix ''_mV_min'' k' of
                 None \<Rightarrow> True
               | Some c \<Rightarrow> c @ ''_mV_s'' \<notin> set (map fst (tech_params tech))"
    by (auto simp: list_all_iff)
  then have "c @ ''_mV_s'' \<notin> set (map fst (tech_params tech))"
    by (simp add: c strip_suffix_append)
  with k key show False by simp
qed

text \<open>
  Claim C8. In the IR, a numeric parameter under a key \<open>*_mV_s\<close> is divided by 1000 and
  re-keyed \<open>*_V_s\<close>, under \<open>*_mV\<close> divided by 1000 and re-keyed \<open>*_V\<close>, under \<open>*_min\<close>
  multiplied by 60 and re-keyed \<open>*_s\<close>, under \<open>*_mA\<close> divided by 1000 and re-keyed \<open>*_A\<close>;
  and for a step whose parameter keys are those of a technique of the catalog, the
  original non-SI key is no longer a key of the IR step.
\<close>

theorem ir_unit_conversion:
  assumes "(key, num x) \<in> set ps"
  shows "(key = b @ ''_mV_s'' \<longrightarrow> (b @ ''_V_s'', num (x / 1000)) \<in> set (ir_params ps))
       \<and> (key = b @ ''_mV'' \<longrightarrow> (b @ ''_V'', num (x / 1000)) \<in> set (ir_params ps))
       \<and> (key = b @ ''_min'' \<longrightarrow> (b @ ''_s'', num (x * 60)) \<in> set (ir_params ps))
       \<and> (key = b @ ''_mA'' \<longrightarrow> (b @ ''_A'', num (x / 1000)) \<in> set (ir_params ps))
       \<and> (non_SI_key key \<and> (tid, tech) \<in> set TECHNIQUES
            \<and> set (map fst ps) \<subseteq> set (map fst (tech_params tech))
          \<longrightarrow> key \<notin> set (map fst (ir_params ps)))"
proof (intro conjI impI)
  assume "key = b @ ''_mV_s''"
  with ir_params_in[OF assms] show "(b @ ''_V_s'', num (x / 1000)) \<in> set (ir_params ps)"
    by (simp add: toSI_mV_s)
next
  assume "key = b @ ''_mV''"
  with ir_params_in[OF assms] show "(b @ ''_V'', num (x / 1000)) \<in> set (ir_params ps)"
    by (simp add: toSI_mV)
next
  assume "key = b @ ''_min''"
  with ir_params_in[OF assms] show "(b @ ''_s'', num (x * 60)) \<in> set (ir_params ps)"
    by (simp add: toSI_min)
next
  assume "key = b @ ''_mA''"
  with ir_params_in[OF assms] show "(b @ ''_A'', num (x / 1000)) \<in> set (ir_params ps)"
    by (simp add: toSI_mA)
next
  assume a: "non_SI_key key \<and> (tid, tech) \<in> set TECHNIQUES
            \<and> set (map fst ps) \<subseteq> set (map fst (tech_params tech))"
  have "key \<in> set (map fst ps)" using assms by force
  with a show "key \<notin> set (map fst (ir_params ps))"
    using catalog_key_removed[of tid tech ps key] by blast
qed

lemma scan_rate_100_entry: "(''scan_rate_mV_s'', num 100) \<in> set (params scan_rate_100)"
  by (simp add: scan_rate_100_def)

lemma scan_rate_key_non_SI: "non_SI_key ''scan_rate_mV_s''"
  using strip_suffix_append[of "''_mV_s''" "''scan_rate''"] by (simp add: non_SI_key_def)

lemma cv_registered: "(''cv'', cv) \<in> set TECHNIQUES" by (simp add: TECHNIQUES_def)

lemma scan_rate_100_keys: "set (map fst (params scan_rate_100)) \<subseteq> set (map fst (tech_params cv))"
  by (simp add: scan_rate_100_def cv_def)



theorem ir_unit_conversion_witness:
  "(''scan_rate_V_s'', num 0.1) \<in> set (ir_params (params scan_rate_100))
   \<and> ''scan_rate_mV_s'' \<notin> set (map fst (ir_params (params scan_rate_100)))"
proof -
  note T = ir_unit_conversion[OF scan_rate_100_entry, of "''scan_rate''" "''cv''" cv]
  have k: "''scan_rate_mV_s'' = ''scan_rate'' @ ''_mV_s''" by simp
  from T k have "(''scan_rate'' @ ''_V_s'', num (100 / 1000))
      \<in> set (ir_params (params scan_rate_100))" by blast
  then have A: "(''scan_rate_V_s'', num 0.1) \<in> set (ir_params (params scan_rate_100))"
    by simp
  from T scan_rate_key_non_SI cv_registered scan_rate_100_keys
  have B: "''scan_rate_mV_s'' \<notin> set (map fst (ir_params (params scan_rate_100)))"
    by blast
  from A B show ?thesis ..
qed


lemma ir_examples:
  "ir_params [(''duration_min'', num 20)] = [(''duration_s'', num 1200)]"
  "ir_params [(''amplitude_mV'', num 10)] = [(''amplitude_V'', num 0.01)]"
  "ir_params [(''current_mA'', num 50)] = [(''current_A'', num 0.05)]"
  using toSI_min[of "''duration''" 20] toSI_mV[of "''amplitude''" 10]
    toSI_mA[of "''current''" 50]
  by (simp_all add: ir_params_def)

section \<open>Properties of quote escaping\<close>

lemma replaceAll_append: "replaceAll c r (xs @ ys) = replaceAll c r xs @ replaceAll c r ys"
  by (simp add: replaceAll_def)

lemma replaceAll_concat_map:
  "replaceAll c r (concat (map f s)) = concat (map (\<lambda>x. replaceAll c r (f x)) s)"
  by (induction s) (simp_all add: replaceAll_append, simp add: replaceAll_def)

lemma replaceAll_first: "replaceAll c r s = concat (map (\<lambda>x. if x = c then r else [x]) s)"
  by (simp add: replaceAll_def)

lemmas char_defs = backslash_def double_quote_def single_quote_def newline_def tab_def
  carriage_return_def

lemma escape_passes_yaml:
  "replaceAll carriage_return [backslash, CHR ''r'']
     (replaceAll tab [backslash, CHR ''t'']
       (replaceAll newline [backslash, CHR ''n'']
         (replaceAll double_quote [backslash, double_quote]
           (if x = backslash then [backslash, backslash] else [x]))))
   = escape_char [double_quote] x"
  by (simp add: replaceAll_def escape_char_def char_defs)

lemma escape_passes_python:
  "replaceAll carriage_return [backslash, CHR ''r'']
     (replaceAll tab [backslash, CHR ''t'']
       (replaceAll newline [backslash, CHR ''n'']
         (replaceAll single_quote [backslash, single_quote]
           (replaceAll double_quote [backslash, double_quote]
             (if x = backslash then [backslash, backslash] else [x])))))
   = escape_char [double_quote, single_quote] x"
  by (simp add: replaceAll_def escape_char_def char_defs)

lemma escapeYaml_Str: "escapeYaml (Str s) = concat (map (escape_char [double_quote]) s)"
  by (simp add: escapeYaml_def escape_controls_def replaceAll_first[of backslash]
      replaceAll_concat_map escape_passes_yaml)

lemma escapePython_Str:
  "escapePython (Str s) = concat (map (escape_char [double_quote, single_quote]) s)"
  by (simp add: escapePython_def escape_controls_def replaceAll_first[of backslash]
      replaceAll_concat_map escape_passes_python)

text \<open>
  Claim C9. \<open>escapeYaml\<close> and \<open>escapePython\<close> return the empty string for \<open>null\<close> and
  for \<open>undefined\<close>. On a string, the passes (backslash first, then the quote characters,
  then newline, tab and carriage return) escape every character of the input exactly
  once: a backslash, a quote of the format, a newline, a tab and a carriage return each
  become their two-character escape sequence, every other character is kept, and no
  backslash written by an earlier pass is escaped again.
\<close>

theorem escape_characterisation:
  "escapeYaml Null = [] \<and> escapeYaml Undefined = []
   \<and> escapeYaml (Str s) = concat (map (escape_char [double_quote]) s)
   \<and> escapePython Null = [] \<and> escapePython Undefined = []
   \<and> escapePython (Str s) = concat (map (escape_char [double_quote, single_quote]) s)"
proof (intro conjI)
  show "escapeYaml Null = []" and "escapeYaml Undefined = []"
    by (simp_all add: escapeYaml_def)
  show "escapePython Null = []" and "escapePython Undefined = []"
    by (simp_all add: escapePython_def)
  show "escapeYaml (Str s) = concat (map (escape_char [double_quote]) s)"
    by (rule escapeYaml_Str)
  show "escapePython (Str s) = concat (map (escape_char [double_quote, single_quote]) s)"
    by (rule escapePython_Str)
qed

lemma escape_examples:
  "escapeYaml (Str (''hello '' @ [double_quote] @ ''world'' @ [double_quote]))
     = ''hello '' @ [backslash, double_quote] @ ''world'' @ [backslash, double_quote]"
  "escapeYaml (Str (''a'' @ [backslash] @ ''b'')) = ''a'' @ [backslash, backslash] @ ''b''"
  "escapeYaml (Str (''a'' @ [newline] @ ''b'' @ [tab] @ ''c''))
     = ''a'' @ [backslash] @ ''nb'' @ [backslash] @ ''tc''"
  "escapePython (Str (''it'' @ [single_quote] @ ''s'')) = ''it'' @ [backslash, single_quote] @ ''s''"
  by (simp_all add: escapeYaml_Str escapePython_Str escape_char_def char_defs)

end
